theory Spec2Isabelle
  imports Complex_Main
begin

section \<open>JavaScript numbers and values\<close>

text \<open>
  A JavaScript number is modelled as an exact rational, or one of the three special
  values. Arithmetic is exact: the rounding of IEEE doubles, overflow to an infinity and
  the sign of zero are not modelled. Strings are ASCII.
\<close>

datatype jsnum = Fin rat | PosInf | NegInf | NaN

fun num_add :: "jsnum \<Rightarrow> jsnum \<Rightarrow> jsnum" where
  "num_add NaN _ = NaN"
| "num_add _ NaN = NaN"
| "num_add PosInf NegInf = NaN"
| "num_add NegInf PosInf = NaN"
| "num_add PosInf _ = PosInf"
| "num_add _ PosInf = PosInf"
| "num_add NegInf _ = NegInf"
| "num_add _ NegInf = NegInf"
| "num_add (Fin a) (Fin b) = Fin (a + b)"

text \<open>\<^verbatim>\<open>x * 100\<close> and \<^verbatim>\<open>x / 100\<close>: a positive finite factor keeps the special values.\<close>

fun times100 :: "jsnum \<Rightarrow> jsnum" where
  "times100 (Fin a) = Fin (a * 100)"
| "times100 x = x"

fun div100 :: "jsnum \<Rightarrow> jsnum" where
  "div100 (Fin a) = Fin (a / 100)"
| "div100 x = x"

text \<open>\<^verbatim>\<open>Math.round\<close>: the nearest integer, a tie going up.\<close>

fun Math_round :: "jsnum \<Rightarrow> jsnum" where
  "Math_round (Fin a) = Fin (of_int \<lfloor>a + 1 / 2\<rfloor>)"
| "Math_round x = x"

text \<open>\<^verbatim>\<open>Math.round(x * 100) / 100\<close>, the rounding to two decimal places of the handlers.\<close>

definition round2 :: "jsnum \<Rightarrow> jsnum" where
  "round2 x = div100 (Math_round (times100 x))"

datatype jsval = Undefined | Null | Bool bool | Num jsnum | Str string | StrArr "string list"

fun truthy :: "jsval \<Rightarrow> bool" where
  "truthy Undefined = False"
| "truthy Null = False"
| "truthy (Bool b) = b"
| "truthy (Num n) = (n \<noteq> NaN \<and> n \<noteq> Fin 0)"
| "truthy (Str s) = (s \<noteq> [])"
| "truthy (StrArr xs) = True"

subsection \<open>parseFloat\<close>

definition is_digit :: "char \<Rightarrow> bool" where
  "is_digit c = (c \<in> set ''0123456789'')"

definition digit_val :: "char \<Rightarrow> nat" where
  "digit_val c = of_char c - 48"

definition digits_val :: "string \<Rightarrow> nat" where
  "digits_val ds = foldl (\<lambda>a c. 10 * a + digit_val c) 0 ds"

definition is_space :: "char \<Rightarrow> bool" where
  "is_space c = (c \<in> set [CHR '' '', CHR 0x09, CHR 0x0A, CHR 0x0B, CHR 0x0C, CHR 0x0D])"

text \<open>
  The exponent part \<^verbatim>\<open>e\<close>, optional sign, digits: it counts only when at least one
  digit follows; otherwise the literal ends before the \<^verbatim>\<open>e\<close>.
\<close>

definition exponent :: "string \<Rightarrow> int" where
  "exponent s =
     (case s of
        [] \<Rightarrow> 0
      | c # r \<Rightarrow>
          if c = CHR ''e'' \<or> c = CHR ''E'' then
            (case r of
               [] \<Rightarrow> 0
             | d # r' \<Rightarrow>
                 if d = CHR ''-'' then - int (digits_val (takeWhile is_digit r'))
                 else if d = CHR ''+'' then int (digits_val (takeWhile is_digit r'))
                 else int (digits_val (takeWhile is_digit r)))
          else 0)"

definition pow10 :: "int \<Rightarrow> rat" where
  "pow10 e = (if 0 \<le> e then 10 ^ nat e else 1 / 10 ^ nat (- e))"

text \<open>
  The longest prefix that is an unsigned decimal literal: \<^verbatim>\<open>Infinity\<close>, or digits with
  an optional fraction, or a fraction alone, each with an optional exponent.
  \<^const>\<open>None\<close> when no prefix is a literal.
\<close>

definition parse_unsigned :: "string \<Rightarrow> jsnum option" where
  "parse_unsigned s =
     (if take 8 s = ''Infinity'' then Some PosInf
      else
        let ip = takeWhile is_digit s;
            r1 = dropWhile is_digit s;
            dot = (r1 \<noteq> [] \<and> hd r1 = CHR ''.'');
            fp = (if dot then takeWhile is_digit (tl r1) else []);
            r2 = (if dot then dropWhile is_digit (tl r1) else r1)
        in if ip = [] \<and> fp = [] then None
           else Some (Fin ((of_nat (digits_val ip)
                            + of_nat (digits_val fp) / 10 ^ length fp)
                           * pow10 (exponent r2))))"

fun num_neg :: "jsnum \<Rightarrow> jsnum" where
  "num_neg (Fin a) = Fin (- a)"
| "num_neg PosInf = NegInf"
| "num_neg NegInf = PosInf"
| "num_neg NaN = NaN"

definition parse_float_str :: "string \<Rightarrow> jsnum" where
  "parse_float_str s =
     (let t = dropWhile is_space s
      in case t of
           [] \<Rightarrow> NaN
         | c # r \<Rightarrow>
             if c = CHR ''-'' then (case parse_unsigned r of None \<Rightarrow> NaN | Some n \<Rightarrow> num_neg n)
             else if c = CHR ''+'' then (case parse_unsigned r of None \<Rightarrow> NaN | Some n \<Rightarrow> n)
             else (case parse_unsigned t of None \<Rightarrow> NaN | Some n \<Rightarrow> n))"

fun join_comma :: "string list \<Rightarrow> string" where
  "join_comma [] = []"
| "join_comma [x] = x"
| "join_comma (x # y # ys) = x @ '','' @ join_comma (y # ys)"

text \<open>
  \<^verbatim>\<open>parseFloat(value)\<close> converts its argument to a string first. A number prints to a
  string that parses back to itself; \<^verbatim>\<open>undefined\<close>, \<^verbatim>\<open>null\<close>, \<^verbatim>\<open>true\<close> and
  \<^verbatim>\<open>false\<close> print to words that are no literal; an array prints its elements joined
  by commas.
\<close>

fun parseFloat :: "jsval \<Rightarrow> jsnum" where
  "parseFloat (Str s) = parse_float_str s"
| "parseFloat (Num n) = n"
| "parseFloat (Bool b) = NaN"
| "parseFloat Undefined = NaN"
| "parseFloat Null = NaN"
| "parseFloat (StrArr xs) = parse_float_str (join_comma xs)"

text \<open>\<^verbatim>\<open>n || 0\<close> on a number: \<^verbatim>\<open>NaN\<close> and zero are falsy.\<close>

definition num_or_zero :: "jsnum \<Rightarrow> jsnum" where
  "num_or_zero n = (if truthy (Num n) then n else Fin 0)"

text \<open>\<^verbatim>\<open>v || 0\<close> on any value.\<close>

definition or_zero :: "jsval \<Rightarrow> jsval" where
  "or_zero v = (if truthy v then v else Num (Fin 0))"

section \<open>The result model\<close>

text \<open>
  The keys of the interface \<^verbatim>\<open>QuestionResult\<close>. An item is the object the code handles at
  run time: a finite map from keys to values, where reading an absent key gives
  \<^verbatim>\<open>undefined\<close>. The spread \<^verbatim>\<open>{...q, [field]: value}\<close> is the map update and
  \<^verbatim>\<open>{...q, ...updates}\<close> is the right-biased union.
\<close>

datatype field =
    F_type | F_questionNumber | F_questionText | F_alternatives | F_studentAnswer
  | F_isCorrect | F_score | F_maxScore | F_feedback

type_synonym QuestionResult = "field \<rightharpoonup> jsval"

definition get_prop :: "QuestionResult \<Rightarrow> field \<Rightarrow> jsval" where
  "get_prop q f = (case q f of None \<Rightarrow> Undefined | Some v \<Rightarrow> v)"

text \<open>\<^verbatim>\<open>q.type === 'context'\<close>\<close>

definition is_context :: "QuestionResult \<Rightarrow> bool" where
  "is_context q = (get_prop q F_type = Str ''context'')"

record CorrectionResult =
  studentName :: string
  schoolName :: "string option"
  teacherName :: "string option"
  className :: "string option"
  examDate :: "string option"
  totalScore :: jsnum
  maxTotalScore :: jsnum
  summary :: string
  fullTranscription :: string
  questions :: "QuestionResult list"

text \<open>
  What the model leaves out. An index past the end makes JavaScript grow the array, with
  holes; the cards pass only the indices of the items they render. Adding a string or an
  array to the running total concatenates strings; that happens only when a score field
  holds something other than a number.
\<close>

datatype unmodelled = IndexOutOfRange | NonNumericSum

section \<open>The aggregation in the handlers\<close>

text \<open>
  \<^verbatim>\<open>acc + x\<close> for a number \<^verbatim>\<open>acc\<close>: a numeric addition unless \<^verbatim>\<open>x\<close> is a string or an
  array; \<^verbatim>\<open>true\<close> counts 1, \<^verbatim>\<open>false\<close> and \<^verbatim>\<open>null\<close> count 0, \<^verbatim>\<open>undefined\<close> gives
  \<^verbatim>\<open>NaN\<close>.
\<close>

fun js_plus :: "jsnum \<Rightarrow> jsval \<Rightarrow> unmodelled + jsnum" where
  "js_plus a (Num b) = Inr (num_add a b)"
| "js_plus a (Bool b) = Inr (num_add a (Fin (if b then 1 else 0)))"
| "js_plus a Undefined = Inr NaN"
| "js_plus a Null = Inr (num_add a (Fin 0))"
| "js_plus a (Str s) = Inl NonNumericSum"
| "js_plus a (StrArr xs) = Inl NonNumericSum"

text \<open>
  The callbacks of the three \<^verbatim>\<open>reduce\<close> calls:
  \<^verbatim>\<open>(acc, q) => { if (q.type === 'context') return acc; return acc + (q.score || 0); }\<close>
  in \<^verbatim>\<open>handleQuestionChange\<close>, for \<^verbatim>\<open>score\<close> and for \<^verbatim>\<open>maxScore\<close>, and
  \<^verbatim>\<open>(acc, q) => acc + (q.score || 0)\<close> in \<^verbatim>\<open>handleQuestionBulkUpdate\<close>.
\<close>

definition add_skip_context :: "field \<Rightarrow> unmodelled + jsnum \<Rightarrow> QuestionResult \<Rightarrow> unmodelled + jsnum" where
  "add_skip_context f acc q =
     (case acc of
        Inl e \<Rightarrow> Inl e
      | Inr a \<Rightarrow> if is_context q then Inr a else js_plus a (or_zero (get_prop q f)))"

definition add_every :: "field \<Rightarrow> unmodelled + jsnum \<Rightarrow> QuestionResult \<Rightarrow> unmodelled + jsnum" where
  "add_every f acc q =
     (case acc of
        Inl e \<Rightarrow> Inl e
      | Inr a \<Rightarrow> js_plus a (or_zero (get_prop q f)))"

definition reduce :: "('b \<Rightarrow> 'a \<Rightarrow> 'b) \<Rightarrow> 'b \<Rightarrow> 'a list \<Rightarrow> 'b" where
  "reduce f init xs = foldl f init xs"

section \<open>ResultsView: the edit handlers\<close>

text \<open>
  A handler closes over \<open>data\<close>, the state of the render that created it, and passes an
  updater to \<^verbatim>\<open>setData\<close> that receives \<open>prev\<close>, the state at the time of the update.
  For a handler called from the current render the two are the same state.
\<close>

definition handleQuestionChange ::
  "CorrectionResult \<Rightarrow> CorrectionResult \<Rightarrow> nat \<Rightarrow> field \<Rightarrow> jsval
     \<Rightarrow> unmodelled + CorrectionResult" where
  "handleQuestionChange data prev index fld value =
     (if length (questions data) \<le> index then Inl IndexOutOfRange
      else
        let updatedQuestions =
              (questions data)[index := ((questions data) ! index)(fld \<mapsto> value)]
        in if is_context (updatedQuestions ! index) then
             Inr (prev\<lparr>questions := updatedQuestions,
                       totalScore := (if fld = F_score then totalScore data else totalScore prev),
                       maxTotalScore :=
                         (if fld = F_maxScore then maxTotalScore data else maxTotalScore prev)\<rparr>)
           else if fld = F_score then
             (let scoreValue = num_or_zero (parseFloat value);
                  updatedQuestions' =
                    updatedQuestions[index := (updatedQuestions ! index)(F_score \<mapsto> Num scoreValue)]
              in case reduce (add_skip_context F_score) (Inr (Fin 0)) updatedQuestions' of
                   Inl e \<Rightarrow> Inl e
                 | Inr newTotalScore \<Rightarrow>
                     Inr (prev\<lparr>questions := updatedQuestions',
                               totalScore := round2 newTotalScore\<rparr>))
           else if fld = F_maxScore then
             (let maxScoreValue = num_or_zero (parseFloat value);
                  updatedQuestions' =
                    updatedQuestions[index := (updatedQuestions ! index)(F_maxScore \<mapsto> Num maxScoreValue)]
              in case reduce (add_skip_context F_maxScore) (Inr (Fin 0)) updatedQuestions' of
                   Inl e \<Rightarrow> Inl e
                 | Inr newMaxTotalScore \<Rightarrow>
                     Inr (prev\<lparr>questions := updatedQuestions',
                               maxTotalScore := round2 newMaxTotalScore\<rparr>))
           else Inr (prev\<lparr>questions := updatedQuestions\<rparr>))"

text \<open>
  \<^verbatim>\<open>updates\<close> is the object parsed from the oracle's answer; \<^verbatim>\<open>updates.score !== undefined\<close>
  reads the key.
\<close>

definition handleQuestionBulkUpdate ::
  "CorrectionResult \<Rightarrow> CorrectionResult \<Rightarrow> nat \<Rightarrow> (field \<rightharpoonup> jsval)
     \<Rightarrow> unmodelled + CorrectionResult" where
  "handleQuestionBulkUpdate data prev index updates =
     (if length (questions data) \<le> index then Inl IndexOutOfRange
      else
        let updatedQuestions = (questions data)[index := ((questions data) ! index) ++ updates]
        in if get_prop updates F_score \<noteq> Undefined then
             (case reduce (add_every F_score) (Inr (Fin 0)) updatedQuestions of
                Inl e \<Rightarrow> Inl e
              | Inr newTotalScore \<Rightarrow>
                  Inr (prev\<lparr>questions := updatedQuestions, totalScore := round2 newTotalScore\<rparr>))
           else Inr (prev\<lparr>questions := updatedQuestions\<rparr>))"

section \<open>The credit gate\<close>

datatype role = Role_admin | Role_user

datatype status = Pending | Approved | Blocked

record User =
  user_id :: string
  name :: string
  email :: string
  role :: role
  status :: status
  credits :: int

text \<open>
  A row of the table \<^verbatim>\<open>profiles\<close>, its columns filled, and the table, keyed by \<^verbatim>\<open>id\<close>. A
  select that finds no row, or that fails, yields \<^verbatim>\<open>data: null\<close>. Credits are whole
  numbers, and an update is taken to reach the table.
\<close>

record profile =
  p_id :: string
  p_name :: string
  p_email :: string
  p_role :: role
  p_status :: status
  p_credits :: int

type_synonym profiles = "string \<rightharpoonup> profile"

text \<open>
  The session user is made from the row by \<^verbatim>\<open>mapProfileToUser\<close>, which forces the role
  admin, the status approved and 99999 credits for the e-mail of the super admin, whatever
  the row holds.
\<close>

definition SUPER_ADMIN_EMAIL :: string where
  "SUPER_ADMIN_EMAIL = ''marciomedrado@gmail.com''"

definition mapProfileToUser :: "profile \<Rightarrow> string option \<Rightarrow> User" where
  "mapProfileToUser profile email_arg =
     (let isSuperAdmin =
            (email_arg = Some SUPER_ADMIN_EMAIL \<or> p_email profile = SUPER_ADMIN_EMAIL)
      in \<lparr>user_id = p_id profile,
          name = (if p_name profile \<noteq> [] then p_name profile
                  else ''Usu'' @ [CHR 0xC3, CHR 0xA1] @ ''rio''),
          email = (if p_email profile \<noteq> [] then p_email profile
                   else case email_arg of None \<Rightarrow> [] | Some e \<Rightarrow> e),
          role = (if isSuperAdmin then Role_admin else p_role profile),
          status = (if isSuperAdmin then Approved else p_status profile),
          credits = (if isSuperAdmin then 99999 else p_credits profile)\<rparr>)"

text \<open>\<^verbatim>\<open>update({ credits: c }).eq('id', userId)\<close> changes the matching row, if any.\<close>

definition update_credits :: "profiles \<Rightarrow> string \<Rightarrow> int \<Rightarrow> profiles" where
  "update_credits db userId c =
     (case db userId of None \<Rightarrow> db | Some row \<Rightarrow> db(userId \<mapsto> row\<lparr>p_credits := c\<rparr>))"

definition consumeCredit :: "profiles \<Rightarrow> string \<Rightarrow> bool \<times> profiles" where
  "consumeCredit db userId =
     (if userId = ''offline-super-admin'' then (True, db)
      else case db userId of
             None \<Rightarrow> (False, db)
           | Some profile \<Rightarrow>
               if p_role profile = Role_admin then (True, db)
               else if 0 < p_credits profile then
                 (True, update_credits db userId (p_credits profile - 1))
               else (False, db))"

definition updateUserCredits :: "profiles \<Rightarrow> string \<Rightarrow> int \<Rightarrow> profiles" where
  "updateUserCredits db userId amount =
     (if userId = ''offline-super-admin'' then db
      else
        let newCredits = max 0 ((case db userId of None \<Rightarrow> 0 | Some current \<Rightarrow> p_credits current) + amount)
        in update_credits db userId newCredits)"

text \<open>The gate of \<^verbatim>\<open>handleAnalyze\<close>: the submission goes on unless this test stops it.\<close>

definition gate_denies :: "User \<Rightarrow> bool" where
  "gate_denies user = (role user \<noteq> Role_admin \<and> credits user \<le> 0)"

subsection \<open>Dashboard: handleAnalyze\<close>

datatype ui_error =
    NoCredits       \<comment> \<open>not enough credits\<close>
  | DebitFailed     \<comment> \<open>the credit could not be debited; the analysis is not shown\<close>
  | AnalysisFailed  \<comment> \<open>the correction failed\<close>

text \<open>The calls to the services, logged in the order they are made, each with its outcome.\<close>

datatype call = Call_analyzeExam bool | Call_consumeCredit string bool | Call_reloadUser

record dashboard =
  user :: User
  selected_file :: "string option"
  dresult :: "CorrectionResult option"
  error :: "ui_error option"
  loading :: bool

record world =
  store :: profiles
  calls :: "call list"

text \<open>
  \<open>analysis\<close> is what \<^verbatim>\<open>await analyzeExam(file, context)\<close> gives: the correction, or the
  exception it throws. \<open>reloaded\<close> is what \<^verbatim>\<open>reloadUser()\<close> gives.
\<close>

definition handleAnalyze ::
  "dashboard \<Rightarrow> world \<Rightarrow> string + CorrectionResult \<Rightarrow> User option \<Rightarrow> dashboard \<times> world" where
  "handleAnalyze s w analysis reloaded =
     (if selected_file s = None then (s, w)
      else if gate_denies (user s) then (s\<lparr>error := Some NoCredits\<rparr>, w)
      else
        case analysis of
          Inl err \<Rightarrow>
            (s\<lparr>error := Some AnalysisFailed, loading := False\<rparr>,
             w\<lparr>calls := calls w @ [Call_analyzeExam False]\<rparr>)
        | Inr correction \<Rightarrow>
            let (creditConsumed, db') = consumeCredit (store w) (user_id (user s))
            in if creditConsumed \<or> role (user s) = Role_admin then
                 (s\<lparr>user := (case reloaded of None \<Rightarrow> user s | Some updatedUser \<Rightarrow> updatedUser),
                    dresult := Some correction, error := None, loading := False\<rparr>,
                  \<lparr>store = db',
                   calls = calls w @ [Call_analyzeExam True,
                                      Call_consumeCredit (user_id (user s)) creditConsumed,
                                      Call_reloadUser]\<rparr>)
               else
                 (s\<lparr>error := Some DebitFailed, loading := False\<rparr>,
                  \<lparr>store = db',
                   calls = calls w @ [Call_analyzeExam True,
                                      Call_consumeCredit (user_id (user s)) creditConsumed]\<rparr>))"

subsection \<open>consumeCredit, request by request\<close>

text \<open>
  \<^verbatim>\<open>consumeCredit\<close> awaits two requests: the select of the row, and the update that
  writes the credits it read, minus one. Each request is one step on the table; between
  the two, requests of other sessions may run.
\<close>

datatype consume_task = Start | Fetched "profile option" | Finished bool

fun consume_step :: "string \<Rightarrow> consume_task \<times> profiles \<Rightarrow> consume_task \<times> profiles" where
  "consume_step userId (Start, db) =
     (if userId = ''offline-super-admin'' then (Finished True, db)
      else (Fetched (db userId), db))"
| "consume_step userId (Fetched None, db) = (Finished False, db)"
| "consume_step userId (Fetched (Some profile), db) =
     (if p_role profile = Role_admin then (Finished True, db)
      else if 0 < p_credits profile then
        (Finished True, update_credits db userId (p_credits profile - 1))
      else (Finished False, db))"
| "consume_step userId (Finished b, db) = (Finished b, db)"

text \<open>Two sessions of one principal, and a schedule that says whose request runs next.\<close>

datatype session = Session_A | Session_B

fun interleave ::
  "string \<Rightarrow> session list \<Rightarrow> consume_task \<times> consume_task \<times> profiles
     \<Rightarrow> consume_task \<times> consume_task \<times> profiles" where
  "interleave userId [] s = s"
| "interleave userId (Session_A # sched) (a, b, db) =
     (case consume_step userId (a, db) of (a', db') \<Rightarrow> interleave userId sched (a', b, db'))"
| "interleave userId (Session_B # sched) (a, b, db) =
     (case consume_step userId (b, db) of (b', db') \<Rightarrow> interleave userId sched (a, b', db'))"

text \<open>The operations on the quota, for sequences of them.\<close>

datatype gate_op = Op_consumeCredit string | Op_updateUserCredits string int

fun gate_apply :: "gate_op \<Rightarrow> profiles \<Rightarrow> profiles" where
  "gate_apply (Op_consumeCredit userId) db = snd (consumeCredit db userId)"
| "gate_apply (Op_updateUserCredits userId amount) db = updateUserCredits db userId amount"

definition gate_run :: "gate_op list \<Rightarrow> profiles \<Rightarrow> profiles" where
  "gate_run ops db = fold gate_apply ops db"

definition remaining :: "profiles \<Rightarrow> string \<Rightarrow> int" where
  "remaining db userId = (case db userId of None \<Rightarrow> 0 | Some row \<Rightarrow> p_credits row)"

section \<open>ResultsView: the summary refresh\<close>

text \<open>
  \<^verbatim>\<open>regenerateSummary\<close>: it throws without an API key; a failure of the oracle is caught
  and gives the empty string, as does an answer without text.
\<close>

definition regenerateSummary :: "bool \<Rightarrow> string + string \<Rightarrow> string + string" where
  "regenerateSummary api_key outcome =
     (if \<not> api_key then Inl ''API Key is missing.''
      else case outcome of Inl err \<Rightarrow> Inr [] | Inr text \<Rightarrow> Inr text)"

text \<open>
  The component: its state \<open>data\<close>, the ref \<open>firstRender\<close>, the pending timeout with its
  time and the \<open>data\<close> its callback closes over, and a log of the calls to
  \<^verbatim>\<open>regenerateSummary\<close> with the time and the argument. Times are in milliseconds.
\<close>

record view =
  data :: CorrectionResult
  firstRender :: bool
  mounted :: bool
  timer :: "(nat \<times> CorrectionResult) option"
  isUpdatingSummary :: bool
  summarize_calls :: "(nat \<times> CorrectionResult) list"

text \<open>
  The body of the effect with the dependencies \<^verbatim>\<open>[data.questions, data.totalScore]\<close>: the
  first run only clears the ref; a later run sets a timeout of 2000 ms.
\<close>

definition summary_effect :: "nat \<Rightarrow> view \<Rightarrow> view" where
  "summary_effect now v =
     (if firstRender v then v\<lparr>firstRender := False\<rparr>
      else v\<lparr>timer := Some (now + 2000, data v)\<rparr>)"

definition mount :: "CorrectionResult \<Rightarrow> view" where
  "mount initialResult =
     summary_effect 0
       \<lparr>data = initialResult, firstRender = True, mounted = True, timer = None,
        isUpdatingSummary = False, summarize_calls = []\<rparr>"

text \<open>
  \<^verbatim>\<open>setData\<close> and the render that follows. The effect runs again when a dependency
  changed: \<open>fresh\<close> says that \<^verbatim>\<open>data.questions\<close> is a new array. Its cleanup, which clears
  the timeout, runs first.
\<close>

definition set_data :: "nat \<Rightarrow> bool \<Rightarrow> CorrectionResult \<Rightarrow> view \<Rightarrow> view" where
  "set_data now fresh d' v =
     (if fresh \<or> totalScore d' \<noteq> totalScore (data v)
      then summary_effect now (v\<lparr>data := d', timer := None\<rparr>)
      else v\<lparr>data := d'\<rparr>)"

text \<open>The timeout callback, up to its \<^verbatim>\<open>await\<close>: it runs when its time has come.\<close>

definition fire_due :: "nat \<Rightarrow> view \<Rightarrow> view" where
  "fire_due now v =
     (case timer v of
        None \<Rightarrow> v
      | Some (t, snapshot) \<Rightarrow>
          if t \<le> now then
            v\<lparr>timer := None, isUpdatingSummary := True,
              summarize_calls := summarize_calls v @ [(t, snapshot)]\<rparr>
          else v)"

text \<open>
  The rest of the callback, when the promise of \<^verbatim>\<open>regenerateSummary\<close> settles. A state
  update of an unmounted component does nothing.
\<close>

definition summary_settled :: "string + string \<Rightarrow> view \<Rightarrow> view" where
  "summary_settled r v =
     (if \<not> mounted v then v
      else case r of
             Inl err \<Rightarrow> v\<lparr>isUpdatingSummary := False\<rparr>
           | Inr newSummary \<Rightarrow>
               if newSummary \<noteq> [] then
                 v\<lparr>data := (data v)\<lparr>summary := newSummary\<rparr>, isUpdatingSummary := False\<rparr>
               else v\<lparr>isUpdatingSummary := False\<rparr>)"

text \<open>
  \<^verbatim>\<open>handleReevaluate\<close> of a question card: \<open>outcome\<close> is what
  \<^verbatim>\<open>await reevaluateQuestion(question, context)\<close> gives, the parsed updates or the exception.
  The card's \<^verbatim>\<open>onBulkUpdate\<close> closes over \<open>clicked\<close>, the \<open>data\<close> of the render of the
  click. On an exception the handler alerts and updates nothing.
\<close>

definition handleReevaluate ::
  "nat \<Rightarrow> CorrectionResult \<Rightarrow> nat \<Rightarrow> string + (field \<rightharpoonup> jsval) \<Rightarrow> view
     \<Rightarrow> unmodelled + view" where
  "handleReevaluate now clicked index outcome v =
     (case outcome of
        Inl err \<Rightarrow> Inr v
      | Inr updates \<Rightarrow>
          (case handleQuestionBulkUpdate clicked (data v) index updates of
             Inl e \<Rightarrow> Inl e
           | Inr d' \<Rightarrow> Inr (set_data now True d' v)))"

text \<open>
  What happens to the component: an edit of an item through \<^verbatim>\<open>onUpdate\<close>, the end of a
  re-evaluation (with the \<open>data\<close> of the click), the answer to the \<open>k\<close>-th call of
  \<^verbatim>\<open>regenerateSummary\<close>, the reset that unmounts the component, and the passing of time.
\<close>

datatype event =
    Edit nat field jsval
  | Reevaluated nat CorrectionResult "string + (field \<rightharpoonup> jsval)"
  | SummarySettled nat "string + string"
  | Unmount
  | Tick

fun step :: "nat \<Rightarrow> event \<Rightarrow> view \<Rightarrow> unmodelled + view" where
  "step now (Edit index fld value) v =
     (if \<not> mounted v then Inr v
      else case handleQuestionChange (data v) (data v) index fld value of
             Inl e \<Rightarrow> Inl e
           | Inr d' \<Rightarrow> Inr (set_data now True d' v))"
| "step now (Reevaluated index clicked outcome) v =
     (if \<not> mounted v then Inr v
      else handleReevaluate now clicked index outcome v)"
| "step now (SummarySettled k r) v = Inr (summary_settled r v)"
| "step now Unmount v = Inr (v\<lparr>mounted := False, timer := None\<rparr>)"
| "step now Tick v = Inr v"

text \<open>A timeline: the events with their times, in order. A due timeout fires first.\<close>

fun run :: "(nat \<times> event) list \<Rightarrow> view \<Rightarrow> unmodelled + view" where
  "run [] v = Inr v"
| "run ((t, e) # es) v =
     (case step t e (fire_due t v) of Inl x \<Rightarrow> Inl x | Inr v' \<Rightarrow> run es v')"

section \<open>The aggregates of the specification\<close>

text \<open>
  The sum of a score field over the Question items only, in the order of the list, a
  missing value counting as 0.
\<close>

definition spec_value :: "jsval \<Rightarrow> jsnum" where
  "spec_value v = (case v of Num n \<Rightarrow> n | _ \<Rightarrow> Fin 0)"

definition sum_over_questions :: "field \<Rightarrow> QuestionResult list \<Rightarrow> jsnum" where
  "sum_over_questions f qs =
     foldl num_add (Fin 0)
       (map (\<lambda>q. spec_value (get_prop q f)) (filter (\<lambda>q. \<not> is_context q) qs))"

text \<open>
  A score field typed as the interface types it, \<^verbatim>\<open>score?: number\<close>: absent, or a number
  other than \<^verbatim>\<open>NaN\<close>.
\<close>

definition numeric :: "jsval \<Rightarrow> bool" where
  "numeric v = (case v of Undefined \<Rightarrow> True | Num n \<Rightarrow> n \<noteq> NaN | _ \<Rightarrow> False)"

definition typed_questions :: "field \<Rightarrow> QuestionResult list \<Rightarrow> bool" where
  "typed_questions f qs = (\<forall>q \<in> set qs. \<not> is_context q \<longrightarrow> numeric (get_prop q f))"

text \<open>The items other than the one at index \<open>i\<close>.\<close>

definition others :: "nat \<Rightarrow> 'a list \<Rightarrow> 'a list" where
  "others i qs = take i qs @ drop (Suc i) qs"

text \<open>No Context item holds a value in the field that counts.\<close>

definition unscored_contexts :: "field \<Rightarrow> QuestionResult list \<Rightarrow> bool" where
  "unscored_contexts f qs = (\<forall>q \<in> set qs. is_context q \<longrightarrow> \<not> truthy (get_prop q f))"

definition item_field :: "nat \<Rightarrow> field \<Rightarrow> CorrectionResult \<Rightarrow> jsval" where
  "item_field i f d = get_prop (questions d ! i) f"

text \<open>The aggregate that belongs to a score field.\<close>

definition aggregate :: "field \<Rightarrow> CorrectionResult \<Rightarrow> jsnum" where
  "aggregate f d = (if f = F_maxScore then maxTotalScore d else totalScore d)"

definition view_summary :: "view \<Rightarrow> string" where
  "view_summary v = summary (data v)"

definition call_times :: "view \<Rightarrow> nat list" where
  "call_times v = map fst (summarize_calls v)"

subsection \<open>Sessions to run the handlers on\<close>

definition question_item :: "string \<Rightarrow> rat \<Rightarrow> rat \<Rightarrow> QuestionResult" where
  "question_item n s m =
     [F_type \<mapsto> Str ''question'', F_questionNumber \<mapsto> Str n, F_questionText \<mapsto> Str ''Quanto vale 2 + 2?'',
      F_studentAnswer \<mapsto> Str ''4'', F_isCorrect \<mapsto> Bool True, F_feedback \<mapsto> Str ''Certo.'',
      F_maxScore \<mapsto> Num (Fin m), F_score \<mapsto> Num (Fin s)]"

definition context_item :: QuestionResult where
  "context_item =
     [F_type \<mapsto> Str ''context'', F_questionNumber \<mapsto> Str ''Texto 1'',
      F_questionText \<mapsto> Str ''Leia o texto.'']"

definition exam :: "jsnum \<Rightarrow> jsnum \<Rightarrow> QuestionResult list \<Rightarrow> CorrectionResult" where
  "exam t m items =
     \<lparr>studentName = ''Ana'', schoolName = None, teacherName = None, className = None,
      examDate = None, totalScore = t, maxTotalScore = m,
      summary = ''Bom desempenho.'', fullTranscription = [], questions = items\<rparr>"

text \<open>The session of the scenario: two questions, 7 of 10 and 3 of 10.\<close>

definition scenario :: CorrectionResult where
  "scenario = exam (Fin 10) (Fin 20) [question_item ''1'' 7 10, question_item ''2'' 3 10]"

text \<open>The two invariants of the session.\<close>

definition invariant_I1 :: "CorrectionResult \<Rightarrow> bool" where
  "invariant_I1 d = (totalScore d = round2 (sum_over_questions F_score (questions d)))"

definition invariant_I2 :: "CorrectionResult \<Rightarrow> bool" where
  "invariant_I2 d = (maxTotalScore d = round2 (sum_over_questions F_maxScore (questions d)))"

text \<open>The scenario after the first edit: 8.5 of 10 and 3 of 10.\<close>

definition scenario_edited :: CorrectionResult where
  "scenario_edited =
     exam (Fin (23 / 2)) (Fin 20) [question_item ''1'' (17 / 2) 10, question_item ''2'' 3 10]"

text \<open>
  A result as the oracle may return it: the same two questions, and a maximum of 10 read
  off the sheet, which is not the sum of the items.
\<close>

definition graded :: CorrectionResult where
  "graded = exam (Fin 10) (Fin 10) [question_item ''1'' 7 10, question_item ''2'' 3 10]"

text \<open>A session that opens with a supporting text.\<close>

definition with_context :: CorrectionResult where
  "with_context = exam (Fin 7) (Fin 10) [context_item, question_item ''1'' 7 10]"

text \<open>The same, where the oracle gave the supporting text a score.\<close>

definition scored_context :: CorrectionResult where
  "scored_context =
     exam (Fin 7) (Fin 10) [context_item(F_score \<mapsto> Num (Fin 2)), question_item ''1'' 7 10]"

text \<open>The verdict of a re-evaluation.\<close>

definition verdict :: "field \<rightharpoonup> jsval" where
  "verdict = [F_isCorrect \<mapsto> Bool False, F_score \<mapsto> Num (Fin 4), F_feedback \<mapsto> Str ''Incompleto.'']"

subsection \<open>The quota, in the terms of the specification\<close>

text \<open>
  The role that \<^verbatim>\<open>consumeCredit\<close> tests is the one of the stored row, not the one of the
  session user that the gate tests. A row is an admin row when it has the role admin; the
  offline super admin has no row and is passed by its id. A row is standard when it has
  another role.
\<close>

definition stored_admin :: "profiles \<Rightarrow> string \<Rightarrow> bool" where
  "stored_admin db userId =
     (userId = ''offline-super-admin'' \<or>
      (case db userId of None \<Rightarrow> False | Some row \<Rightarrow> p_role row = Role_admin))"

definition standard :: "profiles \<Rightarrow> string \<Rightarrow> bool" where
  "standard db userId =
     (userId \<noteq> ''offline-super-admin'' \<and>
      (case db userId of None \<Rightarrow> False | Some row \<Rightarrow> p_role row \<noteq> Role_admin))"

text \<open>The commits in a log of calls, and the order the specification asks for: a commit
  comes only after a grading call that succeeded, and at most once for each.\<close>

fun is_commit :: "call \<Rightarrow> bool" where
  "is_commit (Call_consumeCredit userId ok) = True"
| "is_commit _ = False"

definition commits :: "call list \<Rightarrow> nat" where
  "commits cs = length (filter is_commit cs)"


text \<open>The submission goes as far as the grading call.\<close>

definition submitted :: "dashboard \<Rightarrow> bool" where
  "submitted s = (selected_file s \<noteq> None \<and> \<not> gate_denies (user s))"

text \<open>The calls a handler added to the log.\<close>

definition new_calls :: "world \<Rightarrow> world \<Rightarrow> call list" where
  "new_calls w w' = drop (length (calls w)) (calls w')"

subsection \<open>Principals and tables to run the gate on\<close>

definition teacher :: User where
  "teacher = \<lparr>user_id = ''u1'', name = ''Ana'', email = ''ana@example.com'', role = Role_user,
              status = Approved, credits = 5\<rparr>"

definition director :: User where
  "director = \<lparr>user_id = ''a1'', name = ''Rui'', email = ''rui@example.com'', role = Role_admin,
               status = Approved, credits = 0\<rparr>"

definition table :: "int \<Rightarrow> profiles" where
  "table c =
     [''u1'' \<mapsto> \<lparr>p_id = ''u1'', p_name = ''Ana'', p_email = ''ana@example.com'',
                p_role = Role_user, p_status = Approved, p_credits = c\<rparr>,
      ''a1'' \<mapsto> \<lparr>p_id = ''a1'', p_name = ''Rui'', p_email = ''rui@example.com'',
                p_role = Role_admin, p_status = Approved, p_credits = 0\<rparr>]"

text \<open>
  The super admin: a row with the role user and some credits, as a sign-up leaves it,
  and the session user that \<^verbatim>\<open>mapProfileToUser\<close> makes from it.
\<close>

definition owner_row :: "int \<Rightarrow> profile" where
  "owner_row c = \<lparr>p_id = ''s1'', p_name = ''Marcio'', p_email = SUPER_ADMIN_EMAIL,
                  p_role = Role_user, p_status = Pending, p_credits = c\<rparr>"

definition owner_table :: "int \<Rightarrow> profiles" where
  "owner_table c = [''s1'' \<mapsto> owner_row c]"

definition owner :: "int \<Rightarrow> User" where
  "owner c = mapProfileToUser (owner_row c) None"

definition ready :: "User \<Rightarrow> dashboard" where
  "ready u = \<lparr>user = u, selected_file = Some ''prova.png'', dresult = None, error = None,
              loading = False\<rparr>"

definition world_of :: "profiles \<Rightarrow> world" where
  "world_of t = \<lparr>store = t, calls = []\<rparr>"

text \<open>Two commits of one principal: one after the other, and with both reads first.\<close>

definition sequential :: "session list" where
  "sequential = [Session_A, Session_A, Session_B, Session_B]"

definition overlapped :: "session list" where
  "overlapped = [Session_A, Session_B, Session_A, Session_B]"

subsection \<open>Timelines to run the view on\<close>

definition deadline :: "view \<Rightarrow> nat option" where
  "deadline v = map_option fst (timer v)"

text \<open>Three edits, at 0, 500 and 1000 ms, and a look at the view at time \<open>T\<close>.\<close>

definition three_edits :: "nat \<Rightarrow> (nat \<times> event) list" where
  "three_edits T =
     [(0, Edit 0 F_score (Str ''8'')), (500, Edit 0 F_score (Str ''8.5'')),
      (1000, Edit 1 F_isCorrect (Bool False)), (T, Tick)]"

text \<open>
  Two refresh cycles whose answers come back in the other order: the call fired at 2000
  is answered after the one fired at 4500.
\<close>

definition out_of_order :: "(nat \<times> event) list" where
  "out_of_order =
     [(0, Edit 0 F_score (Str ''8'')), (2500, Edit 0 F_score (Str ''9'')), (4500, Tick),
      (5000, SummarySettled 1 (Inr ''Nota 12 de 20.'')),
      (6000, SummarySettled 0 (Inr ''Nota 11 de 20.''))]"

text \<open>An edit of the text of a question, and a look at the view two seconds later.\<close>

definition text_edit :: "(nat \<times> event) list" where
  "text_edit = [(0, Edit 0 F_questionText (Str ''Quanto vale 3 + 3?'')), (2000, Tick)]"

section \<open>Aggregation: what the edit handlers establish\<close>

lemma floor_rat_numeral [simp]: "\<lfloor>(numeral a :: rat) / numeral b\<rfloor> = numeral a div numeral b"
  using floor_divide_of_int_eq [of "numeral a" "numeral b", where ?'a = rat] by simp

lemma num_add_zero [simp]: "num_add a (Fin 0) = a"
  by (cases a) simp_all

lemma num_or_zero_not_NaN [simp]: "num_or_zero n \<noteq> NaN"
  by (simp add: num_or_zero_def)

lemma num_or_zero_NaN [simp]: "num_or_zero NaN = Fin 0"
  by (simp add: num_or_zero_def)

lemma or_zero_numeric: "numeric v \<Longrightarrow> or_zero v = Num (spec_value v)"
  by (cases v) (auto simp: numeric_def or_zero_def spec_value_def)

lemma or_zero_falsy: "\<not> truthy v \<Longrightarrow> or_zero v = Num (Fin 0)"
  by (simp add: or_zero_def)

lemma is_context_upd [simp]: "fld \<noteq> F_type \<Longrightarrow> is_context (q(fld \<mapsto> v)) = is_context q"
  by (simp add: is_context_def get_prop_def)

lemma get_prop_upd_same [simp]: "get_prop (q(f \<mapsto> v)) f = v"
  by (simp add: get_prop_def)

text \<open>On typed items the reduce of the handler is the sum of the specification.\<close>

lemma reduce_skip_context:
  "typed_questions f qs \<Longrightarrow>
   reduce (add_skip_context f) (Inr a) qs =
     Inr (foldl num_add a
            (map (\<lambda>q. spec_value (get_prop q f)) (filter (\<lambda>q. \<not> is_context q) qs)))"
  unfolding reduce_def
proof (induction qs arbitrary: a)
  case Nil
  show ?case by simp
next
  case (Cons q qs)
  from Cons.prems have tq: "typed_questions f qs"
    and hq: "\<not> is_context q \<longrightarrow> numeric (get_prop q f)"
    by (simp_all add: typed_questions_def)
  show ?case
  proof (cases "is_context q")
    case True
    then show ?thesis using Cons.IH [OF tq] by (simp add: add_skip_context_def)
  next
    case False
    with hq have "or_zero (get_prop q f) = Num (spec_value (get_prop q f))"
      by (simp add: or_zero_numeric)
    with False show ?thesis using Cons.IH [OF tq] by (simp add: add_skip_context_def)
  qed
qed

text \<open>
  The reduce of the bulk update adds every item; it is the sum of the specification when
  no Context item holds a score.
\<close>

lemma reduce_every:
  "typed_questions f qs \<Longrightarrow> unscored_contexts f qs \<Longrightarrow>
   reduce (add_every f) (Inr a) qs =
     Inr (foldl num_add a
            (map (\<lambda>q. spec_value (get_prop q f)) (filter (\<lambda>q. \<not> is_context q) qs)))"
  unfolding reduce_def
proof (induction qs arbitrary: a)
  case Nil
  show ?case by simp
next
  case (Cons q qs)
  from Cons.prems have tq: "typed_questions f qs" and uq: "unscored_contexts f qs"
    and hq: "\<not> is_context q \<longrightarrow> numeric (get_prop q f)"
    and cq: "is_context q \<longrightarrow> \<not> truthy (get_prop q f)"
    by (simp_all add: typed_questions_def unscored_contexts_def)
  show ?case
  proof (cases "is_context q")
    case True
    with cq have "or_zero (get_prop q f) = Num (Fin 0)" by (simp add: or_zero_falsy)
    with True show ?thesis using Cons.IH [OF tq uq] by (simp add: add_every_def)
  next
    case False
    with hq have "or_zero (get_prop q f) = Num (spec_value (get_prop q f))"
      by (simp add: or_zero_numeric)
    with False show ?thesis using Cons.IH [OF tq uq] by (simp add: add_every_def)
  qed
qed

lemma typed_questions_update:
  assumes "i < length qs" and "typed_questions f (others i qs)"
    and "\<not> is_context q \<longrightarrow> numeric (get_prop q f)"
  shows "typed_questions f (qs[i := q])"
proof -
  have "qs[i := q] = take i qs @ q # drop (Suc i) qs"
    using assms(1) by (rule upd_conv_take_nth_drop)
  then show ?thesis using assms(2,3)
    by (auto simp: typed_questions_def others_def)
qed

lemma score_edit:
  assumes "index < length (questions snap)" "\<not> is_context (questions snap ! index)"
    "typed_questions F_score (others index (questions snap))"
  shows "handleQuestionChange snap prev index F_score v =
           Inr (prev\<lparr>questions :=
                       (questions snap)[index :=
                          (questions snap ! index)(F_score \<mapsto> Num (num_or_zero (parseFloat v)))],
                     totalScore :=
                       round2 (sum_over_questions F_score
                         ((questions snap)[index :=
                            (questions snap ! index)(F_score \<mapsto> Num (num_or_zero (parseFloat v)))]))\<rparr>)"
proof -
  let ?q = "(questions snap ! index)(F_score \<mapsto> Num (num_or_zero (parseFloat v)))"
  have "typed_questions F_score ((questions snap)[index := ?q])"
    using assms(1,3) by (rule typed_questions_update) (simp add: numeric_def)
  from reduce_skip_context [OF this, of "Fin 0"] assms(1,2) show ?thesis
    by (simp add: handleQuestionChange_def Let_def sum_over_questions_def)
qed

lemma maxScore_edit:
  assumes "index < length (questions snap)" "\<not> is_context (questions snap ! index)"
    "typed_questions F_maxScore (others index (questions snap))"
  shows "handleQuestionChange snap prev index F_maxScore v =
           Inr (prev\<lparr>questions :=
                       (questions snap)[index :=
                          (questions snap ! index)(F_maxScore \<mapsto> Num (num_or_zero (parseFloat v)))],
                     maxTotalScore :=
                       round2 (sum_over_questions F_maxScore
                         ((questions snap)[index :=
                            (questions snap ! index)(F_maxScore \<mapsto> Num (num_or_zero (parseFloat v)))]))\<rparr>)"
proof -
  let ?q = "(questions snap ! index)(F_maxScore \<mapsto> Num (num_or_zero (parseFloat v)))"
  have "typed_questions F_maxScore ((questions snap)[index := ?q])"
    using assms(1,3) by (rule typed_questions_update) (simp add: numeric_def)
  from reduce_skip_context [OF this, of "Fin 0"] assms(1,2) show ?thesis
    by (simp add: handleQuestionChange_def Let_def sum_over_questions_def)
qed

lemma bulk_update:
  assumes "index < length (questions snap)" "get_prop updates F_score \<noteq> Undefined"
    "typed_questions F_score ((questions snap)[index := (questions snap ! index) ++ updates])"
    "unscored_contexts F_score ((questions snap)[index := (questions snap ! index) ++ updates])"
  shows "handleQuestionBulkUpdate snap prev index updates =
           Inr (prev\<lparr>questions := (questions snap)[index := (questions snap ! index) ++ updates],
                     totalScore :=
                       round2 (sum_over_questions F_score
                         ((questions snap)[index := (questions snap ! index) ++ updates]))\<rparr>)"
  using reduce_every [OF assms(3,4), of "Fin 0"] assms(1,2)
  by (simp add: handleQuestionBulkUpdate_def Let_def sum_over_questions_def)

lemma context_edit:
  assumes "index < length (questions d)" "is_context (questions d ! index)" "fld \<noteq> F_type"
  shows "handleQuestionChange d d index fld v =
           Inr (d\<lparr>questions := (questions d)[index := (questions d ! index)(fld \<mapsto> v)]\<rparr>)"
  using assms by (simp add: handleQuestionChange_def Let_def)

text \<open>The sum over a field does not see a write to another field of a Question item.\<close>

lemma sum_other_field:
  assumes "i < length qs" and "is_context q = is_context (qs ! i)"
    and "get_prop q f = get_prop (qs ! i) f"
  shows "sum_over_questions f (qs[i := q]) = sum_over_questions f qs"
proof -
  have a: "qs[i := q] = take i qs @ q # drop (Suc i) qs"
    using assms(1) by (rule upd_conv_take_nth_drop)
  have b: "qs = take i qs @ qs ! i # drop (Suc i) qs"
    using assms(1) by (rule id_take_nth_drop)
  have "sum_over_questions f (take i qs @ q # drop (Suc i) qs) =
        sum_over_questions f (take i qs @ qs ! i # drop (Suc i) qs)"
    using assms(2,3) by (simp add: sum_over_questions_def)
  with a b show ?thesis by simp
qed

lemma get_prop_upd_other [simp]: "f \<noteq> g \<Longrightarrow> get_prop (q(g \<mapsto> v)) f = get_prop q f"
  by (simp add: get_prop_def)

text \<open>An item that counts 0 can be left out of the sum.\<close>

lemma sum_without_zero_item:
  assumes "i < length qs" "is_context q \<or> spec_value (get_prop q f) = Fin 0"
  shows "sum_over_questions f (qs[i := q]) = sum_over_questions f (others i qs)"
proof -
  have "qs[i := q] = take i qs @ q # drop (Suc i) qs"
    using assms(1) by (rule upd_conv_take_nth_drop)
  then show ?thesis using assms(2)
    by (auto simp: sum_over_questions_def others_def)
qed

lemmas eval_parse =
  parse_float_str_def parse_unsigned_def is_space_def is_digit_def digits_val_def
  digit_val_def exponent_def pow10_def num_or_zero_def

lemmas eval_items =
  scenario_def scenario_edited_def graded_def with_context_def scored_context_def verdict_def
  exam_def question_item_def context_item_def is_context_def get_prop_def
  typed_questions_def unscored_contexts_def numeric_def item_field_def others_def
  invariant_I1_def invariant_I2_def aggregate_def

lemmas eval_handlers =
  handleQuestionChange_def handleQuestionBulkUpdate_def reduce_def add_skip_context_def
  add_every_def or_zero_def round2_def sum_over_questions_def spec_value_def Let_def

subsection \<open>Totals after a mutation of a score\<close>

text \<open>
  C1, as the code has it. On a session whose other items have their score fields typed
  as the interface types them: after a direct edit of the score of a Question item, \<open>totalScore\<close> is
  \<open>round2\<close> of the sum of \<open>score\<close> over the Question items only, a missing value counting
  as 0, and \<open>maxTotalScore\<close> keeps its value; after a direct edit of \<open>maxScore\<close>,
  \<open>maxTotalScore\<close> is \<open>round2\<close> of the sum of \<open>maxScore\<close> over the Question items only and
  \<open>totalScore\<close> keeps its value; after a re-evaluation patch that carries a score, on a
  list where no Context item holds a score, \<open>totalScore\<close> is \<open>round2\<close> of the sum of
  \<open>score\<close> over the Question items and \<open>maxTotalScore\<close> keeps its value. The handler
  recomputes the aggregate of the field that changed, and only that one; the other
  invariant holds after a direct edit if it held before.
\<close>

theorem totals_after_score_mutation:
  "(index < length (questions d) \<and> \<not> is_context (questions d ! index)
      \<and> typed_questions F_score (others index (questions d)) \<longrightarrow>
      (\<exists>d'. handleQuestionChange d d index F_score v = Inr d' \<and>
            invariant_I1 d' \<and> maxTotalScore d' = maxTotalScore d \<and>
            (invariant_I2 d \<longrightarrow> invariant_I2 d')))
   \<and> (index < length (questions d) \<and> \<not> is_context (questions d ! index)
      \<and> typed_questions F_maxScore (others index (questions d)) \<longrightarrow>
      (\<exists>d'. handleQuestionChange d d index F_maxScore v = Inr d' \<and>
            invariant_I2 d' \<and> totalScore d' = totalScore d \<and>
            (invariant_I1 d \<longrightarrow> invariant_I1 d')))
   \<and> (index < length (questions clicked) \<and> get_prop updates F_score \<noteq> Undefined
      \<and> typed_questions F_score
            ((questions clicked)[index := (questions clicked ! index) ++ updates])
      \<and> unscored_contexts F_score
            ((questions clicked)[index := (questions clicked ! index) ++ updates]) \<longrightarrow>
      (\<exists>d'. handleQuestionBulkUpdate clicked d index updates = Inr d' \<and>
            invariant_I1 d' \<and> maxTotalScore d' = maxTotalScore d))"
proof -
  have a: "index < length (questions d) \<and> \<not> is_context (questions d ! index)
      \<and> typed_questions F_score (others index (questions d)) \<longrightarrow>
      (\<exists>d'. handleQuestionChange d d index F_score v = Inr d' \<and>
            invariant_I1 d' \<and> maxTotalScore d' = maxTotalScore d \<and>
            (invariant_I2 d \<longrightarrow> invariant_I2 d'))"
    by (simp add: score_edit invariant_I1_def invariant_I2_def sum_other_field)
  have b: "index < length (questions d) \<and> \<not> is_context (questions d ! index)
      \<and> typed_questions F_maxScore (others index (questions d)) \<longrightarrow>
      (\<exists>d'. handleQuestionChange d d index F_maxScore v = Inr d' \<and>
            invariant_I2 d' \<and> totalScore d' = totalScore d \<and>
            (invariant_I1 d \<longrightarrow> invariant_I1 d'))"
    by (simp add: maxScore_edit invariant_I1_def invariant_I2_def sum_other_field)
  have c: "index < length (questions clicked) \<and> get_prop updates F_score \<noteq> Undefined
      \<and> typed_questions F_score
            ((questions clicked)[index := (questions clicked ! index) ++ updates])
      \<and> unscored_contexts F_score
            ((questions clicked)[index := (questions clicked ! index) ++ updates]) \<longrightarrow>
      (\<exists>d'. handleQuestionBulkUpdate clicked d index updates = Inr d' \<and>
            invariant_I1 d' \<and> maxTotalScore d' = maxTotalScore d)"
    by (simp add: bulk_update invariant_I1_def)
  from a b c show ?thesis by blast
qed

text \<open>
  The scenario: editing the score of item 0 to 8.5 gives the total 11.5; then editing the
  maximum of item 1 to 5 gives the maximum total 15, the total still 11.5. And a
  re-evaluation of item 1 to the score 4 gives the total 11.
\<close>

theorem totals_after_score_mutation_witness:
  "(0 < length (questions scenario) \<and> \<not> is_context (questions scenario ! 0)
      \<and> typed_questions F_score (others 0 (questions scenario)))
   \<and> handleQuestionChange scenario scenario 0 F_score (Str ''8.5'') = Inr scenario_edited
   \<and> totalScore scenario_edited = Fin (23 / 2)
   \<and> (1 < length (questions scenario_edited) \<and> \<not> is_context (questions scenario_edited ! 1)
      \<and> typed_questions F_maxScore (others 1 (questions scenario_edited)))
   \<and> map_sum id maxTotalScore
        (handleQuestionChange scenario_edited scenario_edited 1 F_maxScore (Str ''5'')) = Inr (Fin 15)
   \<and> map_sum id totalScore
        (handleQuestionChange scenario_edited scenario_edited 1 F_maxScore (Str ''5'')) = Inr (Fin (23 / 2))
   \<and> (1 < length (questions scenario) \<and> get_prop verdict F_score \<noteq> Undefined
      \<and> typed_questions F_score ((questions scenario)[1 := (questions scenario ! 1) ++ verdict])
      \<and> unscored_contexts F_score ((questions scenario)[1 := (questions scenario ! 1) ++ verdict]))
   \<and> map_sum id totalScore (handleQuestionBulkUpdate scenario scenario 1 verdict) = Inr (Fin 11)"
proof -
  have h1: "0 < length (questions scenario) \<and> \<not> is_context (questions scenario ! 0)
      \<and> typed_questions F_score (others 0 (questions scenario))"
    by (simp add: eval_items)
  have h2: "1 < length (questions scenario_edited) \<and> \<not> is_context (questions scenario_edited ! 1)
      \<and> typed_questions F_maxScore (others 1 (questions scenario_edited))"
    by (simp add: eval_items)
  have h3: "1 < length (questions scenario) \<and> get_prop verdict F_score \<noteq> Undefined
      \<and> typed_questions F_score ((questions scenario)[1 := (questions scenario ! 1) ++ verdict])
      \<and> unscored_contexts F_score ((questions scenario)[1 := (questions scenario ! 1) ++ verdict])"
    by (simp add: eval_items)
  from h1 totals_after_score_mutation [where index = 0 and d = scenario and v = "Str ''8.5''"]
  obtain d1 where d1: "handleQuestionChange scenario scenario 0 F_score (Str ''8.5'') = Inr d1"
    and i1: "invariant_I1 d1"
    by blast
  have e1: "handleQuestionChange scenario scenario 0 F_score (Str ''8.5'') = Inr scenario_edited"
    by (simp add: eval_parse eval_items eval_handlers)
  with d1 i1 have "invariant_I1 scenario_edited" by simp
  then have t1: "totalScore scenario_edited = Fin (23 / 2)"
    by (simp add: eval_items eval_handlers)
  from h2 totals_after_score_mutation [where index = 1 and d = scenario_edited and v = "Str ''5''"]
  obtain d2 where d2: "handleQuestionChange scenario_edited scenario_edited 1 F_maxScore (Str ''5'') = Inr d2"
    and i2: "invariant_I2 d2" and t2: "totalScore d2 = totalScore scenario_edited"
    by blast
  have e2: "map_sum id maxTotalScore
        (handleQuestionChange scenario_edited scenario_edited 1 F_maxScore (Str ''5'')) = Inr (Fin 15)"
    by (simp add: eval_parse eval_items eval_handlers)
  have e2t: "map_sum id totalScore
        (handleQuestionChange scenario_edited scenario_edited 1 F_maxScore (Str ''5'')) = Inr (Fin (23 / 2))"
    using d2 t2 by (simp add: eval_items)
  from h3 totals_after_score_mutation [where index = 1 and d = scenario and clicked = scenario and updates = verdict]
  obtain d3 where d3: "handleQuestionBulkUpdate scenario scenario 1 verdict = Inr d3"
    and i3: "invariant_I1 d3"
    by blast
  have e3: "map_sum id totalScore (handleQuestionBulkUpdate scenario scenario 1 verdict) = Inr (Fin 11)"
    by (simp add: eval_items eval_handlers)
  from h1 h2 h3 e1 t1 e2 e2t e3 show ?thesis by blast
qed

text \<open>
  C1 as stated fails: on the result the oracle returned, with a maximum of 10 over items
  that sum to 20, the edit of a score leaves \<open>maxTotalScore\<close> at 10.
\<close>

theorem totals_after_score_mutation_counterexample:
  "map_sum id invariant_I2 (handleQuestionChange graded graded 0 F_score (Str ''8.5'')) = Inr False
   \<and> map_sum id maxTotalScore (handleQuestionChange graded graded 0 F_score (Str ''8.5'')) = Inr (Fin 10)"
  by (simp add: eval_parse eval_items eval_handlers)

text \<open>
  The reduce of the bulk update has no test for Context items, unlike the two of
  \<^verbatim>\<open>handleQuestionChange\<close>: a score that the oracle gave to a supporting text is added to
  the total by a re-evaluation (2 + 4), and left out by a direct edit.
\<close>

lemma bulk_update_adds_context_score:
  "map_sum id totalScore (handleQuestionBulkUpdate scored_context scored_context 1 verdict) = Inr (Fin 6)
   \<and> map_sum id totalScore (handleQuestionChange scored_context scored_context 1 F_score (Str ''4'')) = Inr (Fin 4)"
  by (simp add: eval_parse eval_items eval_handlers)

subsection \<open>Edits of a Context item\<close>

text \<open>
  C4, as the code has it. For a Context item at index \<open>index\<close> and a score-like field
  (\<open>score\<close>, \<open>maxScore\<close>, \<open>isCorrect\<close>), a field edit leaves \<open>totalScore\<close>, \<open>maxTotalScore\<close>,
  the header and every other item unchanged, and writes the supplied value, as it is,
  into that field of the Context item.
\<close>

theorem context_edit_writes_field_only:
  assumes "index < length (questions d)" and "is_context (questions d ! index)"
    and "fld = F_score \<or> fld = F_maxScore \<or> fld = F_isCorrect"
  shows "handleQuestionChange d d index fld v =
           Inr (d\<lparr>questions := (questions d)[index := (questions d ! index)(fld \<mapsto> v)]\<rparr>)"
  using assms by (intro context_edit) auto

theorem context_edit_writes_field_only_witness:
  "0 < length (questions with_context) \<and> is_context (questions with_context ! 0)
   \<and> map_sum id totalScore (handleQuestionChange with_context with_context 0 F_isCorrect (Bool True))
       = Inr (Fin 7)
   \<and> map_sum id maxTotalScore (handleQuestionChange with_context with_context 0 F_isCorrect (Bool True))
       = Inr (Fin 10)
   \<and> map_sum id (item_field 0 F_isCorrect)
        (handleQuestionChange with_context with_context 0 F_isCorrect (Bool True)) = Inr (Bool True)"
proof -
  have h: "0 < length (questions with_context)" "is_context (questions with_context ! 0)"
    by (simp_all add: eval_items)
  have "handleQuestionChange with_context with_context 0 F_isCorrect (Bool True) =
          Inr (with_context\<lparr>questions :=
                 (questions with_context)[0 := (questions with_context ! 0)(F_isCorrect \<mapsto> Bool True)]\<rparr>)"
    using h by (intro context_edit_writes_field_only) auto
  then show ?thesis using h by (simp add: eval_items)
qed

text \<open>
  C4 as stated fails: the edit is not a no-op. A score written to the supporting text is
  stored in it, unparsed.
\<close>

theorem context_edit_writes_field_only_counterexample:
  "is_context (questions with_context ! 0)
   \<and> item_field 0 F_score with_context = Undefined
   \<and> map_sum id (item_field 0 F_score)
        (handleQuestionChange with_context with_context 0 F_score (Str ''8.5'')) = Inr (Str ''8.5'')"
  by (simp add: eval_items eval_handlers)

subsection \<open>The value stored by an edit of a score\<close>

text \<open>
  C10, as the code has it. For an edit of the \<open>score\<close> or \<open>maxScore\<close> of a Question item,
  on a session whose other items have that field typed, the stored value is \<^verbatim>\<open>parseFloat\<close> of the
  supplied value, 0 when that is \<^verbatim>\<open>NaN\<close>; so the stored value is a number and not
  \<^verbatim>\<open>NaN\<close>. An edit that does not parse stores 0, and the aggregate of the field becomes
  \<open>round2\<close> of the sum over the other Question items: the item counts 0, the aggregate is
  not set to 0.
\<close>

theorem score_edit_stores_parsed_number:
  assumes "index < length (questions d)" and "\<not> is_context (questions d ! index)"
    and "fld = F_score \<or> fld = F_maxScore"
    and "typed_questions fld (others index (questions d))"
  shows "\<exists>d'. handleQuestionChange d d index fld v = Inr d' \<and>
           item_field index fld d' = Num (num_or_zero (parseFloat v)) \<and>
           num_or_zero (parseFloat v) \<noteq> NaN \<and>
           (parseFloat v = NaN \<longrightarrow>
              item_field index fld d' = Num (Fin 0) \<and>
              aggregate fld d' = round2 (sum_over_questions fld (others index (questions d))))"
proof -
  let ?q = "(questions d ! index)(fld \<mapsto> Num (num_or_zero (parseFloat v)))"
  have zero: "parseFloat v = NaN \<Longrightarrow>
      sum_over_questions fld ((questions d)[index := ?q]) =
      sum_over_questions fld (others index (questions d))"
    using assms(1) by (intro sum_without_zero_item) (simp_all add: spec_value_def)
  from assms(3) show ?thesis
  proof
    assume f: "fld = F_score"
    show ?thesis
      using score_edit [of index d d v] assms(1,2,4) zero
      by (simp add: f item_field_def aggregate_def)
  next
    assume f: "fld = F_maxScore"
    show ?thesis
      using maxScore_edit [of index d d v] assms(1,2,4) zero
      by (simp add: f item_field_def aggregate_def)
  qed
qed

theorem score_edit_stores_parsed_number_witness:
  "0 < length (questions scenario) \<and> \<not> is_context (questions scenario ! 0)
   \<and> typed_questions F_score (others 0 (questions scenario))
   \<and> parseFloat (Str []) = NaN \<and> parseFloat (Str ''abc'') = NaN
   \<and> map_sum id (item_field 0 F_score) (handleQuestionChange scenario scenario 0 F_score (Str []))
       = Inr (Num (Fin 0))
   \<and> map_sum id (item_field 0 F_score) (handleQuestionChange scenario scenario 0 F_score (Str ''8.5''))
       = Inr (Num (Fin (17 / 2)))"
proof -
  have h: "0 < length (questions scenario)" "\<not> is_context (questions scenario ! 0)"
    "typed_questions F_score (others 0 (questions scenario))"
    by (simp_all add: eval_items)
  have p: "parseFloat (Str []) = NaN" "parseFloat (Str ''abc'') = NaN"
    "num_or_zero (parseFloat (Str ''8.5'')) = Fin (17 / 2)"
    by (simp_all add: eval_parse)
  from score_edit_stores_parsed_number [OF h(1,2) _ h(3), of "Str []"] p(1)
  have a: "map_sum id (item_field 0 F_score)
             (handleQuestionChange scenario scenario 0 F_score (Str [])) = Inr (Num (Fin 0))"
    by auto
  from score_edit_stores_parsed_number [OF h(1,2) _ h(3), of "Str ''8.5''"] p(3)
  have b: "map_sum id (item_field 0 F_score)
             (handleQuestionChange scenario scenario 0 F_score (Str ''8.5'')) = Inr (Num (Fin (17 / 2)))"
    by auto
  from h p a b show ?thesis by blast
qed

text \<open>
  C10 as stated fails in its last part: an edit that does not parse zeroes the field, not
  the total. With the scores 7 and 3, the edit of the first to \<^verbatim>\<open>abc\<close> leaves the total 3.
\<close>

theorem score_edit_stores_parsed_number_counterexample:
  "parseFloat (Str ''abc'') = NaN
   \<and> map_sum id (item_field 0 F_score)
        (handleQuestionChange scenario scenario 0 F_score (Str ''abc'')) = Inr (Num (Fin 0))
   \<and> map_sum id totalScore
        (handleQuestionChange scenario scenario 0 F_score (Str ''abc'')) = Inr (Fin 3)"
  by (simp add: eval_parse eval_items eval_handlers)

section \<open>The credit gate: what a submission does to the quota\<close>





text \<open>The two requests of \<^verbatim>\<open>consumeCredit\<close>, run without a break, are \<^verbatim>\<open>consumeCredit\<close>.\<close>

lemma consume_steps_consumeCredit:
  "consume_step userId (consume_step userId (Start, db)) =
     (Finished (fst (consumeCredit db userId)), snd (consumeCredit db userId))"
  by (auto simp: consumeCredit_def split: option.splits)



lemma handleAnalyze_result:
  "submitted s \<Longrightarrow>
   dresult (fst (handleAnalyze s w (Inr c) reloaded)) =
     (if fst (consumeCredit (store w) (user_id (user s))) \<or> role (user s) = Role_admin
      then Some c else dresult s)
   \<and> error (fst (handleAnalyze s w (Inr c) reloaded)) =
     (if fst (consumeCredit (store w) (user_id (user s))) \<or> role (user s) = Role_admin
      then None else Some DebitFailed)"
  by (auto simp: handleAnalyze_def submitted_def split: sum.splits prod.splits)



lemmas eval_gate =
  teacher_def director_def table_def ready_def world_of_def handleAnalyze_def gate_denies_def
  consumeCredit_def update_credits_def updateUserCredits_def remaining_def new_calls_def
  commits_def submitted_def stored_admin_def standard_def gate_run_def sequential_def
  overlapped_def owner_def owner_row_def owner_table_def mapProfileToUser_def
  SUPER_ADMIN_EMAIL_def Let_def

subsection \<open>One commit for each grading call that succeeds\<close>




subsection \<open>A commit that fails after the grading\<close>

text \<open>
  C3, as the code has it. If the submission passed the gate, the grading call succeeded
  and \<^verbatim>\<open>consumeCredit\<close> reports a failure, the result is shown only when the session user
  has the role admin; for any other user it is dropped, the result of the dashboard stays
  what it was, and the error says that the credit could not be debited.
\<close>

theorem failed_commit_drops_result:
  assumes "submitted s" and "fst (consumeCredit (store w) (user_id (user s))) = False"
  shows "dresult (fst (handleAnalyze s w (Inr c) reloaded)) =
           (if role (user s) = Role_admin then Some c else dresult s)
       \<and> error (fst (handleAnalyze s w (Inr c) reloaded)) =
           (if role (user s) = Role_admin then None else Some DebitFailed)"
  using handleAnalyze_result [OF assms(1), of w c reloaded] assms(2) by simp

text \<open>
  The teacher's session shows 5 credits and the table holds 0: the result is dropped. A
  director without a row in the table still gets the result.
\<close>

theorem failed_commit_drops_result_witness:
  "submitted (ready teacher)
   \<and> fst (consumeCredit (store (world_of (table 0))) (user_id (user (ready teacher)))) = False
   \<and> error (fst (handleAnalyze (ready teacher) (world_of (table 0)) (Inr scenario) None))
       = Some DebitFailed
   \<and> submitted (ready director)
   \<and> fst (consumeCredit (store (world_of Map.empty)) (user_id (user (ready director)))) = False
   \<and> dresult (fst (handleAnalyze (ready director) (world_of Map.empty) (Inr scenario) None))
       = Some scenario"
proof -
  have t: "submitted (ready teacher)"
    "fst (consumeCredit (store (world_of (table 0))) (user_id (user (ready teacher)))) = False"
    "role (user (ready teacher)) \<noteq> Role_admin"
    by (simp_all add: eval_gate)
  have d: "submitted (ready director)"
    "fst (consumeCredit (store (world_of Map.empty)) (user_id (user (ready director)))) = False"
    "role (user (ready director)) = Role_admin"
    by (simp_all add: eval_gate)
  from failed_commit_drops_result [OF t(1,2), of scenario None] t(3)
  have 1: "error (fst (handleAnalyze (ready teacher) (world_of (table 0)) (Inr scenario) None))
       = Some DebitFailed"
    by simp
  from failed_commit_drops_result [OF d(1,2), of scenario None] d(3)
  have 2: "dresult (fst (handleAnalyze (ready director) (world_of Map.empty) (Inr scenario) None))
       = Some scenario"
    by simp
  from t d 1 2 show ?thesis by blast
qed

text \<open>
  C3 as stated fails: after a grading call that succeeded, the commit fails and the
  result is not surfaced.
\<close>

theorem failed_commit_drops_result_counterexample:
  "new_calls (world_of (table 0))
      (snd (handleAnalyze (ready teacher) (world_of (table 0)) (Inr scenario) None))
     = [Call_analyzeExam True, Call_consumeCredit ''u1'' False]
   \<and> dresult (fst (handleAnalyze (ready teacher) (world_of (table 0)) (Inr scenario) None)) = None
   \<and> error (fst (handleAnalyze (ready teacher) (world_of (table 0)) (Inr scenario) None))
       = Some DebitFailed"
  by (simp add: eval_gate)

subsection \<open>The gate and the commit\<close>




subsection \<open>Two sessions that commit at once\<close>

text \<open>
  C9, as the code has it. The commit is a read of the row followed by a write of the
  credits read minus one, not an atomic decrement. For a standard principal with at
  least 2 credits, two commits one after the other both succeed and take 2. With at
  least 1 credit, two commits whose reads both come before the first write both succeed
  and take 1: an update is lost.
\<close>

theorem commit_is_read_then_write:
  assumes "standard db userId"
  shows "(2 \<le> remaining db userId \<longrightarrow>
           (\<exists>db'. interleave userId sequential (Start, Start, db)
                     = (Finished True, Finished True, db')
                  \<and> remaining db' userId = remaining db userId - 2))
       \<and> (1 \<le> remaining db userId \<longrightarrow>
           (\<exists>db'. interleave userId overlapped (Start, Start, db)
                     = (Finished True, Finished True, db')
                  \<and> remaining db' userId = remaining db userId - 1))"
  using assms
  by (auto simp: sequential_def overlapped_def standard_def remaining_def update_credits_def
           split: option.splits)

theorem commit_is_read_then_write_witness:
  "standard (table 5) ''u1'' \<and> 2 \<le> remaining (table 5) ''u1''
   \<and> remaining (snd (snd (interleave ''u1'' sequential (Start, Start, table 5)))) ''u1'' = 3
   \<and> remaining (snd (snd (interleave ''u1'' overlapped (Start, Start, table 5)))) ''u1'' = 4"
proof -
  have h: "standard (table 5) ''u1''" "remaining (table 5) ''u1'' = 5"
    by (simp_all add: eval_gate)
  from commit_is_read_then_write [OF h(1)] h(2)
  have "remaining (snd (snd (interleave ''u1'' sequential (Start, Start, table 5)))) ''u1'' = 3"
    and "remaining (snd (snd (interleave ''u1'' overlapped (Start, Start, table 5)))) ''u1'' = 4"
    by auto
  with h show ?thesis by simp
qed

text \<open>
  C9 as stated fails: two sessions of the teacher, 5 credits, both reads before the first
  write. Both commits succeed and 4 credits remain.
\<close>

theorem commit_is_read_then_write_counterexample:
  "fst (interleave ''u1'' overlapped (Start, Start, table 5)) = Finished True
   \<and> fst (snd (interleave ''u1'' overlapped (Start, Start, table 5))) = Finished True
   \<and> remaining (table 5) ''u1'' = 5
   \<and> remaining (snd (snd (interleave ''u1'' overlapped (Start, Start, table 5)))) ''u1'' = 4"
  by (simp add: eval_gate)

section \<open>The summary refresh: what arms it and what it writes\<close>

lemma mount_eq:
  "mount d = \<lparr>data = d, firstRender = False, mounted = True, timer = None,
              isUpdatingSummary = False, summarize_calls = []\<rparr>"
  by (simp add: mount_def summary_effect_def)

lemma set_data_fresh:
  "\<not> firstRender v \<Longrightarrow>
   set_data t True d' v = v\<lparr>data := d', timer := Some (t + 2000, d')\<rparr>"
  by (simp add: set_data_def summary_effect_def)

lemma fire_due_early:
  "timer v = Some (dl, snap) \<Longrightarrow> t < dl \<Longrightarrow> fire_due t v = v"
  by (simp add: fire_due_def)

lemma fire_due_none: "timer v = None \<Longrightarrow> fire_due t v = v"
  by (simp add: fire_due_def)

text \<open>An edit that comes before the pending timeout is due restarts the window.\<close>

lemma run_edit_quiet:
  assumes "mounted v" and "\<not> firstRender v"
    and "timer v = None \<or> (\<exists>dl snap. timer v = Some (dl, snap) \<and> t < dl)"
    and "run ((t, Edit i f x) # es) v = Inr v3"
  shows "\<exists>d'. handleQuestionChange (data v) (data v) i f x = Inr d'
           \<and> run es (v\<lparr>data := d', timer := Some (t + 2000, d')\<rparr>) = Inr v3"
proof -
  have "fire_due t v = v" using assms(3) by (auto simp: fire_due_early fire_due_none)
  then show ?thesis using assms(1,2,4)
    by (auto simp: set_data_fresh split: sum.splits)
qed

lemma three_edits_one_call:
  assumes "run [(0, Edit i1 f1 x1), (500, Edit i2 f2 x2), (1000, Edit i3 f3 x3), (T, Tick)]
             (mount d) = Inr v3"
  shows "summarize_calls v3 = (if T < 3000 then [] else [(3000, data v3)])"
proof -
  from run_edit_quiet [OF _ _ _ assms] obtain d1 where
    r1: "run [(500, Edit i2 f2 x2), (1000, Edit i3 f3 x3), (T, Tick)]
           ((mount d)\<lparr>data := d1, timer := Some (0 + 2000, d1)\<rparr>) = Inr v3"
    by (auto simp: mount_eq)
  from run_edit_quiet [OF _ _ _ r1] obtain d2 where
    r2: "run [(1000, Edit i3 f3 x3), (T, Tick)]
           ((mount d)\<lparr>data := d2, timer := Some (500 + 2000, d2)\<rparr>) = Inr v3"
    by (auto simp: mount_eq)
  from run_edit_quiet [OF _ _ _ r2] obtain d3 where
    r3: "run [(T, Tick)]
           ((mount d)\<lparr>data := d3, timer := Some (1000 + 2000, d3)\<rparr>) = Inr v3"
    by (auto simp: mount_eq)
  then show ?thesis
    by (auto simp: mount_eq fire_due_def)
qed

lemmas eval_view =
  mount_eq fire_due_def set_data_def summary_effect_def summary_settled_def
  handleReevaluate_def regenerateSummary_def call_times_def view_summary_def deadline_def
  three_edits_def out_of_order_def text_edit_def

subsection \<open>Which response is written\<close>

text \<open>
  C5, as the code has it. A summarize response that is not empty is written into the
  summary whenever it arrives while the view is mounted, whichever call it answers and
  whatever was armed or fired since: the calls carry no id, and a newer edit cancels only
  a timeout that has not fired yet. A response that is empty or a failure, or that
  arrives after the reset has unmounted the view, is discarded and the model is not
  changed. No response arms a timer or fires a call.
\<close>

theorem summary_response_written_on_arrival:
  "\<exists>v'. step now (SummarySettled k r) v = Inr v'
      \<and> data v' =
          (case r of
             Inl err \<Rightarrow> data v
           | Inr text \<Rightarrow>
               if mounted v \<and> text \<noteq> [] then (data v)\<lparr>summary := text\<rparr> else data v)
      \<and> timer v' = timer v \<and> summarize_calls v' = summarize_calls v"
  by (auto simp: summary_settled_def split: sum.splits)

theorem summary_response_written_on_arrival_witness:
  "map_sum id view_summary (step 10 (SummarySettled 0 (Inr ''Nota 11 de 20.'')) (mount scenario))
     = Inr ''Nota 11 de 20.''
   \<and> map_sum id view_summary (step 10 (SummarySettled 0 (Inr [])) (mount scenario))
     = Inr ''Bom desempenho.''
   \<and> map_sum id view_summary
        (step 10 (SummarySettled 0 (Inr ''Nota 11 de 20.'')) ((mount scenario)\<lparr>mounted := False\<rparr>))
     = Inr ''Bom desempenho.''"
proof -
  have m: "mounted (mount scenario)" "summary (data (mount scenario)) = ''Bom desempenho.''"
    by (simp_all add: mount_eq eval_items)
  from summary_response_written_on_arrival
         [of 10 0 "Inr ''Nota 11 de 20.''" "mount scenario"] m
  have 1: "map_sum id view_summary
             (step 10 (SummarySettled 0 (Inr ''Nota 11 de 20.'')) (mount scenario))
           = Inr ''Nota 11 de 20.''"
    by (auto simp: view_summary_def)
  from summary_response_written_on_arrival [of 10 0 "Inr []" "mount scenario"] m
  have 2: "map_sum id view_summary (step 10 (SummarySettled 0 (Inr [])) (mount scenario))
           = Inr ''Bom desempenho.''"
    by (auto simp: view_summary_def)
  from summary_response_written_on_arrival
         [of 10 0 "Inr ''Nota 11 de 20.''" "(mount scenario)\<lparr>mounted := False\<rparr>"] m
  have 3: "map_sum id view_summary
        (step 10 (SummarySettled 0 (Inr ''Nota 11 de 20.'')) ((mount scenario)\<lparr>mounted := False\<rparr>))
     = Inr ''Bom desempenho.''"
    by (auto simp: view_summary_def)
  from 1 2 3 show ?thesis by blast
qed

text \<open>
  C5 as stated fails: two calls are fired, at 2000 and at 4500; the answer to the second
  arrives at 5000 and the answer to the first at 6000. The summary ends as the answer to
  the first call, which is not the most recent one.
\<close>

theorem summary_response_written_on_arrival_counterexample:
  "map_sum id call_times (run out_of_order (mount scenario)) = Inr [2000, 4500]
   \<and> map_sum id view_summary (run out_of_order (mount scenario)) = Inr ''Nota 11 de 20.''"
  by (simp add: eval_view eval_items eval_handlers eval_parse)

subsection \<open>What arms the refresh\<close>

text \<open>
  C6, as the code has it. The first population of the result arms nothing: after the
  mount there is no timer and no call ever fires without an edit. Every edit of an item
  through \<^verbatim>\<open>handleQuestionChange\<close>, whatever the field, replaces \<^verbatim>\<open>data.questions\<close> and so
  arms the refresh, with a fixed window of 2000 ms that starts again at each such edit
  and carries the state as of that edit. So for three edits at 0, 500 and 1000 ms no
  call is made before 3000 ms, and from then on exactly one has been made, at 3000 ms,
  with the state as of the last edit.
\<close>

theorem refresh_armed_by_every_edit:
  "(timer (mount d) = None \<and> summarize_calls (mount d) = [] \<and> fire_due T (mount d) = mount d)
   \<and> (mounted v \<and> \<not> firstRender v \<and> step t (Edit i f x) v = Inr v' \<longrightarrow>
        timer v' = Some (t + 2000, data v') \<and> summarize_calls v' = summarize_calls v)
   \<and> (run [(0, Edit i1 f1 x1), (500, Edit i2 f2 x2), (1000, Edit i3 f3 x3), (T, Tick)] (mount d)
         = Inr v3 \<longrightarrow>
        summarize_calls v3 = (if T < 3000 then [] else [(3000, data v3)]))"
proof -
  have a: "timer (mount d) = None \<and> summarize_calls (mount d) = []
           \<and> fire_due T (mount d) = mount d"
    by (simp add: mount_eq fire_due_def)
  have b: "mounted v \<and> \<not> firstRender v \<and> step t (Edit i f x) v = Inr v' \<longrightarrow>
        timer v' = Some (t + 2000, data v') \<and> summarize_calls v' = summarize_calls v"
    by (auto simp: set_data_fresh split: sum.splits)
  have c: "run [(0, Edit i1 f1 x1), (500, Edit i2 f2 x2), (1000, Edit i3 f3 x3), (T, Tick)] (mount d)
         = Inr v3 \<longrightarrow>
        summarize_calls v3 = (if T < 3000 then [] else [(3000, data v3)])"
    by (simp add: three_edits_one_call)
  from a b c show ?thesis by blast
qed

text \<open>
  Three edits of the scenario, at 0, 500 and 1000 ms: at 2999 ms no call has been made,
  at 3000 ms one. An edit of a feedback at 700 ms arms the timer for 2700 ms.
\<close>

theorem refresh_armed_by_every_edit_witness:
  "map_sum id call_times (run (three_edits 2999) (mount scenario)) = Inr []
   \<and> map_sum id call_times (run (three_edits 3000) (mount scenario)) = Inr [3000]
   \<and> mounted (mount scenario) \<and> \<not> firstRender (mount scenario)
   \<and> map_sum id deadline (step 700 (Edit 1 F_feedback (Str ''Reveja.'')) (mount scenario))
       = Inr (Some 2700)"
proof -
  note arm = refresh_armed_by_every_edit
  have m: "mounted (mount scenario)" "\<not> firstRender (mount scenario)"
    by (simp_all add: mount_eq)
  have "\<not> isl (run (three_edits 2999) (mount scenario))"
    by (simp add: eval_view eval_items eval_handlers eval_parse)
  then obtain va where va: "run (three_edits 2999) (mount scenario) = Inr va"
    by (cases "run (three_edits 2999) (mount scenario)") auto
  from arm [where d = scenario and T = 2999 and ?v3.0 = va, THEN conjunct2, THEN conjunct2,
            THEN mp, OF va [unfolded three_edits_def]]
  have "summarize_calls va = []" by simp
  with va have 1: "map_sum id call_times (run (three_edits 2999) (mount scenario)) = Inr []"
    by (simp add: call_times_def)
  have "\<not> isl (run (three_edits 3000) (mount scenario))"
    by (simp add: eval_view eval_items eval_handlers eval_parse)
  then obtain vb where vb: "run (three_edits 3000) (mount scenario) = Inr vb"
    by (cases "run (three_edits 3000) (mount scenario)") auto
  from arm [where d = scenario and T = 3000 and ?v3.0 = vb, THEN conjunct2, THEN conjunct2,
            THEN mp, OF vb [unfolded three_edits_def]]
  have "summarize_calls vb = [(3000, data vb)]" by simp
  with vb have 2: "map_sum id call_times (run (three_edits 3000) (mount scenario)) = Inr [3000]"
    by (simp add: call_times_def)
  have "\<not> isl (step 700 (Edit 1 F_feedback (Str ''Reveja.'')) (mount scenario))"
    by (simp add: eval_view eval_items eval_handlers)
  then obtain vc where vc: "step 700 (Edit 1 F_feedback (Str ''Reveja.'')) (mount scenario) = Inr vc"
    by (cases "step 700 (Edit 1 F_feedback (Str ''Reveja.'')) (mount scenario)") auto
  from arm [where v = "mount scenario" and t = 700 and i = 1 and f = F_feedback
              and x = "Str ''Reveja.''" and v' = vc, THEN conjunct2, THEN conjunct1, THEN mp]
       m vc
  have "timer vc = Some (700 + 2000, data vc)" by blast
  with vc have 3: "map_sum id deadline (step 700 (Edit 1 F_feedback (Str ''Reveja.'')) (mount scenario))
       = Inr (Some 2700)"
    by (simp add: deadline_def)
  from 1 2 3 m show ?thesis by blast
qed

text \<open>
  C6 as stated fails in what arms the refresh: an edit of the text of a question, which
  changes no score, no verdict and no total, fires a summarize call two seconds later.
\<close>

theorem refresh_armed_by_every_edit_counterexample:
  "map_sum id totalScore (handleQuestionChange scenario scenario 0 F_questionText
      (Str ''Quanto vale 3 + 3?'')) = Inr (totalScore scenario)
   \<and> map_sum id call_times (run text_edit (mount scenario)) = Inr [2000]"
  by (simp add: eval_view eval_items eval_handlers)

subsection \<open>Oracle calls that fail\<close>

text \<open>
  C7. When the re-evaluation call fails, \<^verbatim>\<open>handleReevaluate\<close> leaves the whole view as it
  was, so the verdict of the item (\<open>isCorrect\<close>, \<open>score\<close>, \<open>feedback\<close>) is intact. When the
  summarize call fails, whether the oracle fails, which \<^verbatim>\<open>regenerateSummary\<close> turns into
  the empty string, or the API key is missing, which makes it throw, the model is not
  changed and the summary is intact.
\<close>

theorem failed_oracle_call_mutates_nothing:
  "handleReevaluate now clicked index (Inl err) v = Inr v
   \<and> step now (Reevaluated index clicked (Inl err)) v = Inr v
   \<and> data (summary_settled (regenerateSummary api_key (Inl err)) v) = data v
   \<and> data (summary_settled (regenerateSummary False outcome) v) = data v
   \<and> map_sum id data (step now (SummarySettled k (regenerateSummary api_key (Inl err))) v)
       = Inr (data v)"
  by (auto simp: handleReevaluate_def summary_settled_def regenerateSummary_def)

theorem failed_oracle_call_mutates_nothing_witness:
  "map_sum id data (step 10 (Reevaluated 0 scenario (Inl ''503'')) (mount scenario)) = Inr scenario
   \<and> map_sum id view_summary
        (step 10 (SummarySettled 0 (regenerateSummary True (Inl ''503''))) (mount scenario))
       = Inr ''Bom desempenho.''"
proof -
  have d: "data (mount scenario) = scenario" "summary scenario = ''Bom desempenho.''"
    by (simp_all add: mount_eq eval_items)
  from failed_oracle_call_mutates_nothing
         [of 10 scenario 0 "''503''" "mount scenario" True _ 0] d
  show ?thesis by (simp add: view_summary_def)
qed

end
